theory Spec2Isabelle
  imports Main "HOL-Library.Word"
begin

unbundle bit_operations_syntax

section \<open>Data model of blit.c\<close>

type_synonym u32 = "32 word"
type_synonym u64 = "64 word"

text \<open>Vulkan handles (dispatchable or not) are opaque 64-bit values handed out by the driver.\<close>

type_synonym handle = u64

text \<open>
  Constants of \<^verbatim>\<open>vulkan_core.h\<close> used by the program, with the values the Vulkan
  headers give them.
\<close>

definition VK_MEMORY_PROPERTY_DEVICE_LOCAL_BIT :: u32 where
  "VK_MEMORY_PROPERTY_DEVICE_LOCAL_BIT = 0x1"

definition VK_MEMORY_PROPERTY_HOST_VISIBLE_BIT :: u32 where
  "VK_MEMORY_PROPERTY_HOST_VISIBLE_BIT = 0x2"

definition VK_MEMORY_PROPERTY_PROTECTED_BIT :: u32 where
  "VK_MEMORY_PROPERTY_PROTECTED_BIT = 0x20"

text \<open>\<^verbatim>\<open>VkMemoryType\<close> and the memory-type part of \<^verbatim>\<open>VkPhysicalDeviceMemoryProperties\<close>.
  In C, \<^verbatim>\<open>memoryTypes\<close> is an array of \<^verbatim>\<open>VK_MAX_MEMORY_TYPES = 32\<close> entries of which the
  first \<^verbatim>\<open>memoryTypeCount\<close> are valid; here it is a list, and a read past its end is a fault.\<close>

record VkMemoryType =
  propertyFlags :: u32
  heapIndex :: u32

record VkPhysicalDeviceMemoryProperties =
  memoryTypeCount :: u32
  memoryTypes :: "VkMemoryType list"

text \<open>\<^verbatim>\<open>struct data\<close>. The field \<^verbatim>\<open>size\<close> is called \<open>size_v\<close> here.\<close>

record data =
  instance_v :: handle
  physical_device :: handle
  memory_properties :: VkPhysicalDeviceMemoryProperties
  device :: handle
  queue :: handle
  cmd_pool :: handle
  src_buffer :: handle
  src_mem :: handle
  dst_image :: handle
  dst_image_mem :: handle
  dst_buffer :: handle
  dst_mem :: handle
  width :: u32
  height :: u32
  row_stride :: u32
  size_v :: u32

section \<open>The memory classifier: \<^verbatim>\<open>find_image_memory\<close>\<close>

text \<open>
  Behaviour that C leaves undefined is a value of the model: a shift of a 32-bit operand by
  32 or more, and a read past the end of the \<^verbatim>\<open>memoryTypes\<close> array.
\<close>

datatype fault = Shift_out_of_range | Index_out_of_range

text \<open>
  The required-flags mask built at the top of \<^verbatim>\<open>find_image_memory\<close>.
\<close>

definition required_flags :: "bool \<Rightarrow> bool \<Rightarrow> u32" where
  "required_flags host protected =
     VK_MEMORY_PROPERTY_DEVICE_LOCAL_BIT OR
     (if host then VK_MEMORY_PROPERTY_HOST_VISIBLE_BIT else 0) OR
     (if protected then VK_MEMORY_PROPERTY_PROTECTED_BIT else 0)"

text \<open>
  The \<^verbatim>\<open>for\<close> loop, from the value \<open>i\<close> of its counter. It returns the indices at which
  \<^verbatim>\<open>memoryTypes[i]\<close> was read, in order, and the outcome: the returned \<^verbatim>\<open>int\<close>, or a fault.
  The loop condition evaluates \<^verbatim>\<open>1u << i\<close> first; the \<^verbatim>\<open>&&\<close> of the body reads the table
  only when bit \<open>i\<close> of \<open>allowed\<close> is set.
\<close>

function find_image_memory_loop ::
  "VkPhysicalDeviceMemoryProperties \<Rightarrow> u32 \<Rightarrow> u32 \<Rightarrow> u32 \<Rightarrow> nat list \<times> (fault + int)" where
  "find_image_memory_loop mp allowed flags i =
     (if 32 \<le> unat i then ([], Inl Shift_out_of_range)
      else if \<not> (push_bit (unat i) 1 \<le> allowed \<and> i \<le> memoryTypeCount mp) then ([], Inr (- 1))
      else if allowed AND push_bit (unat i) 1 = 0 then find_image_memory_loop mp allowed flags (i + 1)
      else if length (memoryTypes mp) \<le> unat i then ([], Inl Index_out_of_range)
      else if propertyFlags (memoryTypes mp ! unat i) AND flags \<noteq> 0 then ([unat i], Inr (uint i))
      else (case find_image_memory_loop mp allowed flags (i + 1) of
              (rd, r) \<Rightarrow> (unat i # rd, r)))"
  by pat_completeness auto

termination find_image_memory_loop
  by (relation "measure (\<lambda>(mp, allowed, flags, i). 32 - unat i)")
     (auto simp: unat_word_ariths)

declare find_image_memory_loop.simps [simp del]

definition find_image_memory_scan :: "data \<Rightarrow> u32 \<Rightarrow> bool \<Rightarrow> bool \<Rightarrow> nat list \<times> (fault + int)" where
  "find_image_memory_scan vc allowed host protected =
     find_image_memory_loop (memory_properties vc) allowed (required_flags host protected) 0"

text \<open>What \<^verbatim>\<open>find_image_memory\<close> returns.\<close>

definition find_image_memory :: "data \<Rightarrow> u32 \<Rightarrow> bool \<Rightarrow> bool \<Rightarrow> fault + int" where
  "find_image_memory vc allowed host protected = snd (find_image_memory_scan vc allowed host protected)"

text \<open>The table entries \<^verbatim>\<open>find_image_memory\<close> reads, in order.\<close>

definition find_image_memory_reads :: "data \<Rightarrow> u32 \<Rightarrow> bool \<Rightarrow> bool \<Rightarrow> nat list" where
  "find_image_memory_reads vc allowed host protected = fst (find_image_memory_scan vc allowed host protected)"

section \<open>The calls the program makes\<close>

text \<open>
  \<^verbatim>\<open>VkResult\<close> is a C enum; \<^verbatim>\<open>VK_SUCCESS\<close> is 0 and the error codes are negative.
\<close>

type_synonym VkResult = int

definition VK_SUCCESS :: VkResult where
  "VK_SUCCESS = 0"

definition VK_ERROR_DEVICE_LOST :: VkResult where
  "VK_ERROR_DEVICE_LOST = - 4"

definition VK_QUEUE_GRAPHICS_BIT :: u32 where
  "VK_QUEUE_GRAPHICS_BIT = 0x1"

definition VK_BUFFER_USAGE_TRANSFER_SRC_BIT :: u32 where
  "VK_BUFFER_USAGE_TRANSFER_SRC_BIT = 0x1"

definition VK_BUFFER_USAGE_TRANSFER_DST_BIT :: u32 where
  "VK_BUFFER_USAGE_TRANSFER_DST_BIT = 0x2"

definition VK_IMAGE_USAGE_TRANSFER_SRC_BIT :: u32 where
  "VK_IMAGE_USAGE_TRANSFER_SRC_BIT = 0x1"

definition VK_IMAGE_USAGE_TRANSFER_DST_BIT :: u32 where
  "VK_IMAGE_USAGE_TRANSFER_DST_BIT = 0x2"

definition VK_IMAGE_CREATE_PROTECTED_BIT :: u32 where
  "VK_IMAGE_CREATE_PROTECTED_BIT = 0x800"

definition VK_ACCESS_TRANSFER_READ_BIT :: u32 where
  "VK_ACCESS_TRANSFER_READ_BIT = 0x800"

definition VK_ACCESS_TRANSFER_WRITE_BIT :: u32 where
  "VK_ACCESS_TRANSFER_WRITE_BIT = 0x1000"

definition VK_PIPELINE_STAGE_TRANSFER_BIT :: u32 where
  "VK_PIPELINE_STAGE_TRANSFER_BIT = 0x1000"

definition VK_IMAGE_ASPECT_COLOR_BIT :: u32 where
  "VK_IMAGE_ASPECT_COLOR_BIT = 0x1"

definition VK_COMMAND_POOL_CREATE_RESET_COMMAND_BUFFER_BIT :: u32 where
  "VK_COMMAND_POOL_CREATE_RESET_COMMAND_BUFFER_BIT = 0x2"

definition VK_COMMAND_POOL_CREATE_PROTECTED_BIT :: u32 where
  "VK_COMMAND_POOL_CREATE_PROTECTED_BIT = 0x4"

definition VK_WHOLE_SIZE :: u64 where
  "VK_WHOLE_SIZE = - 1"

datatype VkSharingMode = VK_SHARING_MODE_EXCLUSIVE | VK_SHARING_MODE_CONCURRENT

datatype VkImageType = VK_IMAGE_TYPE_1D | VK_IMAGE_TYPE_2D | VK_IMAGE_TYPE_3D

datatype VkImageTiling = VK_IMAGE_TILING_OPTIMAL | VK_IMAGE_TILING_LINEAR

datatype VkFormat = VK_FORMAT_R8G8B8A8_UNORM

datatype VkImageLayout =
    VK_IMAGE_LAYOUT_UNDEFINED
  | VK_IMAGE_LAYOUT_GENERAL
  | VK_IMAGE_LAYOUT_TRANSFER_SRC_OPTIMAL
  | VK_IMAGE_LAYOUT_TRANSFER_DST_OPTIMAL

text \<open>The structures passed to the calls, with the members the program sets
  (\<^verbatim>\<open>sType\<close> left out).\<close>

record VkMemoryRequirements =
  mr_size :: u64
  mr_memoryTypeBits :: u32

record VkBufferCreateInfo =
  bci_flags :: u32
  bci_size :: u64
  bci_usage :: u32
  bci_sharingMode :: VkSharingMode

record VkImageCreateInfo =
  ici_imageType :: VkImageType
  ici_format :: VkFormat
  ici_extent :: "u32 \<times> u32 \<times> u32"
  ici_mipLevels :: u32
  ici_arrayLayers :: u32
  ici_samples :: u32
  ici_tiling :: VkImageTiling
  ici_usage :: u32
  ici_flags :: u32

record VkMemoryAllocateInfo =
  allocationSize :: u64
  memoryTypeIndex :: u32

record VkBufferMemoryBarrier =
  bmb_srcAccessMask :: u32
  bmb_dstAccessMask :: u32
  bmb_buffer :: handle
  bmb_offset :: u64
  bmb_size :: u64

record VkImageSubresourceRange =
  isr_aspectMask :: u32
  isr_baseMipLevel :: u32
  isr_levelCount :: u32
  isr_baseArrayLayer :: u32
  isr_layerCount :: u32

record VkImageMemoryBarrier =
  imb_srcAccessMask :: u32
  imb_dstAccessMask :: u32
  oldLayout :: VkImageLayout
  newLayout :: VkImageLayout
  imb_image :: handle
  subresourceRange :: VkImageSubresourceRange

record VkImageSubresourceLayers =
  isl_aspectMask :: u32
  isl_mipLevel :: u32
  isl_baseArrayLayer :: u32
  isl_layerCount :: u32

record VkBufferImageCopy =
  bufferOffset :: u64
  bufferRowLength :: u32
  bufferImageHeight :: u32
  imageSubresource :: VkImageSubresourceLayers
  imageOffset :: "int \<times> int \<times> int"
  imageExtent :: "u32 \<times> u32 \<times> u32"

text \<open>
  A run of the program is observed as the sequence of its calls into GLib, gdk-pixbuf and
  Vulkan. The \<^verbatim>\<open>device\<close> and allocator arguments, the same in every call, are left out.
  \<open>G_error\<close> is GLib's \<^verbatim>\<open>g_error\<close>: it logs the message at the error level (to standard
  error under the default handler) and aborts the process.
\<close>

datatype event =
    G_error string
  | G_assertion_failed
  | G_info
  | G_object_unref
  | Gdk_pixbuf_new_from_file string
  | Gdk_pixbuf_new_from_data u64 u32 u32 u32
  | Gdk_pixbuf_save string
  | Memcpy u64 "8 word list" u32
  | VkCreateInstance
  | VkEnumeratePhysicalDevices handle
  | VkGetPhysicalDeviceFeatures2 handle
  | VkGetPhysicalDeviceProperties handle
  | VkGetPhysicalDeviceMemoryProperties handle
  | VkGetPhysicalDeviceQueueFamilyProperties handle
  | VkCreateDevice handle
  | VkGetDeviceQueue
  | VkCreateBuffer VkBufferCreateInfo
  | VkGetBufferMemoryRequirements handle
  | VkCreateImage VkImageCreateInfo
  | VkGetImageMemoryRequirements handle
  | VkAllocateMemory VkMemoryAllocateInfo
  | VkBindBufferMemory handle handle u64
  | VkBindImageMemory handle handle u64
  | VkMapMemory handle u64 u64
  | VkUnmapMemory handle
  | VkCreateCommandPool u32
  | VkAllocateCommandBuffers handle
  | VkBeginCommandBuffer handle
  | VkCmdPipelineBarrier handle u32 u32 VkBufferMemoryBarrier VkImageMemoryBarrier
  | VkCmdCopyBufferToImage handle handle handle VkImageLayout VkBufferImageCopy
  | VkCmdCopyImageToBuffer handle handle VkImageLayout handle VkBufferImageCopy
  | VkEndCommandBuffer handle
  | VkQueueSubmit handle handle
  | VkDeviceWaitIdle handle

text \<open>How a run ends: \<^verbatim>\<open>main\<close> returns, the process aborts (\<^verbatim>\<open>g_error\<close>, a failed
  \<^verbatim>\<open>g_assert\<close>), or the program runs into behaviour C leaves undefined.\<close>

datatype wild = Fault fault | Indeterminate_pointer

datatype outcome = Returned int | Aborted | Undefined wild

section \<open>The environment\<close>

text \<open>A decoded image as gdk-pixbuf reports it.\<close>

record GdkPixbuf =
  pb_width :: int
  pb_height :: int
  pb_rowstride :: int
  pb_byte_length :: u64
  pb_pixels :: "8 word list"

text \<open>The call sites whose \<^verbatim>\<open>VkResult\<close> can report a failure.\<close>

datatype vk_call =
    Call_vkCreateInstance
  | Call_vkEnumeratePhysicalDevices_count
  | Call_vkEnumeratePhysicalDevices_fill
  | Call_vkCreateDevice
  | Call_vkCreateBuffer_src
  | Call_vkAllocateMemory_src
  | Call_vkBindBufferMemory_src
  | Call_vkMapMemory_src
  | Call_vkCreateImage
  | Call_vkAllocateMemory_image
  | Call_vkBindImageMemory
  | Call_vkCreateBuffer_dst
  | Call_vkAllocateMemory_dst
  | Call_vkBindBufferMemory_dst
  | Call_vkCreateCommandPool
  | Call_vkAllocateCommandBuffers
  | Call_vkBeginCommandBuffer
  | Call_vkEndCommandBuffer
  | Call_vkQueueSubmit
  | Call_vkDeviceWaitIdle
  | Call_vkMapMemory_dst

text \<open>
  What the libraries answer: the \<^verbatim>\<open>VkResult\<close> of each call, the values written to the
  out-parameters, the decoder's answer for a file name (\<open>Inl\<close> the error message), and
  whether the encoder could write the output file.
\<close>

record env =
  vk_result :: "vk_call \<Rightarrow> VkResult"
  out_instance :: handle
  out_physical_device_count :: u32
  out_physical_device0 :: handle
  out_protectedMemory :: u32
  out_memory_properties :: VkPhysicalDeviceMemoryProperties
  out_queue_family_count :: u32
  out_queue_family0_flags :: u32
  out_device :: handle
  out_queue :: handle
  pixbuf_of_file :: "string \<Rightarrow> string + GdkPixbuf"
  out_src_buffer :: handle
  out_src_requirements :: VkMemoryRequirements
  out_src_mem :: handle
  out_src_map :: u64
  out_dst_image :: handle
  out_image_requirements :: VkMemoryRequirements
  out_dst_image_mem :: handle
  out_dst_buffer :: handle
  out_dst_requirements :: VkMemoryRequirements
  out_dst_mem :: handle
  out_cmd_pool :: handle
  out_cmd_buffer :: handle
  out_dst_map :: u64
  save_ok :: bool
  save_error_message :: string

section \<open>The program\<close>

text \<open>
  Each function returns the calls it made, in order, and either the updated
  \<^verbatim>\<open>struct data\<close> or the way the run ended inside it.
\<close>

text \<open>\<^verbatim>\<open>struct data data = {}\<close>: every member zero.\<close>

definition data0 :: data where
  "data0 =
     \<lparr>instance_v = 0, physical_device = 0,
      memory_properties =
        \<lparr>memoryTypeCount = 0, memoryTypes = replicate 32 \<lparr>propertyFlags = 0, heapIndex = 0\<rparr>\<rparr>,
      device = 0, queue = 0, cmd_pool = 0, src_buffer = 0, src_mem = 0, dst_image = 0,
      dst_image_mem = 0, dst_buffer = 0, dst_mem = 0, width = 0, height = 0, row_stride = 0,
      size_v = 0\<rparr>"

text \<open>\<^verbatim>\<open>init_vk\<close>. A failed \<^verbatim>\<open>g_assert\<close> aborts.\<close>

definition init_vk :: "env \<Rightarrow> data \<Rightarrow> event list \<times> (outcome + data)" where
  "init_vk e vc =
     (let vc1 = vc\<lparr>instance_v := out_instance e\<rparr>;
          t1 = [VkCreateInstance, VkEnumeratePhysicalDevices (instance_v vc1)]
      in if \<not> (vk_result e Call_vkEnumeratePhysicalDevices_count = VK_SUCCESS \<and>
                0 < out_physical_device_count e)
         then (t1 @ [G_assertion_failed], Inl Aborted)
         else
           let vc2 = vc1\<lparr>physical_device := out_physical_device0 e\<rparr>;
               t2 = t1 @ [VkEnumeratePhysicalDevices (instance_v vc2), G_info,
                          VkGetPhysicalDeviceFeatures2 (physical_device vc2)]
           in if out_protectedMemory e = 0
              then (t2 @ [G_assertion_failed], Inl Aborted)
              else
                let vc3 = vc2\<lparr>memory_properties := out_memory_properties e\<rparr>;
                    t3 = t2 @ [VkGetPhysicalDeviceProperties (physical_device vc2), G_info,
                               VkGetPhysicalDeviceMemoryProperties (physical_device vc2),
                               VkGetPhysicalDeviceQueueFamilyProperties (physical_device vc3)]
                in if \<not> 0 < out_queue_family_count e
                   then (t3 @ [G_assertion_failed], Inl Aborted)
                   else
                     let t4 = t3 @ [VkGetPhysicalDeviceQueueFamilyProperties (physical_device vc3)]
                     in if out_queue_family0_flags e AND VK_QUEUE_GRAPHICS_BIT = 0
                        then (t4 @ [G_assertion_failed], Inl Aborted)
                        else
                          let vc4 = vc3\<lparr>device := out_device e\<rparr>;
                              vc5 = vc4\<lparr>queue := out_queue e\<rparr>
                          in (t4 @ [VkCreateDevice (physical_device vc3), VkGetDeviceQueue],
                              Inr vc5))"

text \<open>
  \<^verbatim>\<open>init_image\<close>. The \<^verbatim>\<open>int\<close> results of gdk-pixbuf and of \<^verbatim>\<open>find_image_memory\<close> are
  converted to \<^verbatim>\<open>uint32_t\<close>, the \<^verbatim>\<open>gsize\<close> byte length is truncated to it. The pointer
  \<^verbatim>\<open>map\<close> is uninitialised and \<^verbatim>\<open>vkMapMemory\<close> writes it only when it succeeds, so after
  a failed map the \<^verbatim>\<open>memcpy\<close> goes through an indeterminate pointer.
\<close>

definition init_image :: "env \<Rightarrow> data \<Rightarrow> string \<Rightarrow> event list \<times> (outcome + data)" where
  "init_image e vc filename =
     (case pixbuf_of_file e filename of
        Inl msg \<Rightarrow> ([Gdk_pixbuf_new_from_file filename, G_error msg], Inl Aborted)
      | Inr pixbuf \<Rightarrow>
          let vc1 = vc\<lparr>width := word_of_int (pb_width pixbuf),
                       height := word_of_int (pb_height pixbuf),
                       row_stride := word_of_int (pb_rowstride pixbuf),
                       size_v := ucast (pb_byte_length pixbuf)\<rparr>;
              vc2 = vc1\<lparr>src_buffer := out_src_buffer e\<rparr>;
              t1 = [Gdk_pixbuf_new_from_file filename,
                    VkCreateBuffer
                      \<lparr>bci_flags = 0, bci_size = ucast (size_v vc1),
                       bci_usage = VK_BUFFER_USAGE_TRANSFER_SRC_BIT,
                       bci_sharingMode = VK_SHARING_MODE_EXCLUSIVE\<rparr>,
                    VkGetBufferMemoryRequirements (src_buffer vc2)]
          in (case find_image_memory vc2 (mr_memoryTypeBits (out_src_requirements e)) True False of
               Inl f \<Rightarrow> (t1, Inl (Undefined (Fault f)))
             | Inr i1 \<Rightarrow>
                 let vc3 = vc2\<lparr>src_mem := out_src_mem e\<rparr>;
                     t2 = t1 @
                       [VkAllocateMemory
                          \<lparr>allocationSize = mr_size (out_src_requirements e),
                           memoryTypeIndex = word_of_int i1\<rparr>,
                        VkBindBufferMemory (src_buffer vc3) (src_mem vc3) 0,
                        VkMapMemory (src_mem vc3) 0 (ucast (size_v vc3))]
                 in if vk_result e Call_vkMapMemory_src \<noteq> VK_SUCCESS
                    then (t2, Inl (Undefined Indeterminate_pointer))
                    else
                      let vc4 = vc3\<lparr>dst_image := out_dst_image e\<rparr>;
                          t3 = t2 @
                            [Memcpy (out_src_map e) (pb_pixels pixbuf) (size_v vc3),
                             VkUnmapMemory (src_mem vc3),
                             G_object_unref,
                             VkCreateImage
                               \<lparr>ici_imageType = VK_IMAGE_TYPE_2D,
                                ici_format = VK_FORMAT_R8G8B8A8_UNORM,
                                ici_extent = (width vc3, height vc3, 1),
                                ici_mipLevels = 1, ici_arrayLayers = 1, ici_samples = 1,
                                ici_tiling = VK_IMAGE_TILING_OPTIMAL,
                                ici_usage = VK_IMAGE_USAGE_TRANSFER_SRC_BIT OR
                                            VK_IMAGE_USAGE_TRANSFER_DST_BIT,
                                ici_flags = VK_IMAGE_CREATE_PROTECTED_BIT\<rparr>,
                             VkGetImageMemoryRequirements (dst_image vc4)]
                      in (case find_image_memory vc4
                                (mr_memoryTypeBits (out_image_requirements e)) False True of
                           Inl f \<Rightarrow> (t3, Inl (Undefined (Fault f)))
                         | Inr i2 \<Rightarrow>
                             let vc5 = vc4\<lparr>dst_image_mem := out_dst_image_mem e\<rparr>;
                                 vc6 = vc5\<lparr>dst_buffer := out_dst_buffer e\<rparr>;
                                 t4 = t3 @
                                   [VkAllocateMemory
                                      \<lparr>allocationSize = mr_size (out_image_requirements e),
                                       memoryTypeIndex = word_of_int i2\<rparr>,
                                    VkBindImageMemory (dst_image vc5) (dst_image_mem vc5) 0,
                                    VkCreateBuffer
                                      \<lparr>bci_flags = 0, bci_size = ucast (size_v vc5),
                                       bci_usage = VK_BUFFER_USAGE_TRANSFER_DST_BIT,
                                       bci_sharingMode = VK_SHARING_MODE_EXCLUSIVE\<rparr>,
                                    VkGetBufferMemoryRequirements (dst_buffer vc6)]
                             in (case find_image_memory vc6
                                       (mr_memoryTypeBits (out_dst_requirements e)) True False of
                                  Inl f \<Rightarrow> (t4, Inl (Undefined (Fault f)))
                                | Inr i3 \<Rightarrow>
                                    let vc7 = vc6\<lparr>dst_mem := out_dst_mem e\<rparr>
                                    in (t4 @
                                        [VkAllocateMemory
                                           \<lparr>allocationSize = mr_size (out_dst_requirements e),
                                            memoryTypeIndex = word_of_int i3\<rparr>,
                                         VkBindBufferMemory (dst_buffer vc7) (dst_mem vc7) 0],
                                        Inr vc7)))))"

text \<open>
  \<^verbatim>\<open>write_image_output\<close>. The wrapped pixbuf has alpha and 8 bits per sample. A failed
  save is reported with \<^verbatim>\<open>g_error\<close>, which aborts.
\<close>

definition write_image_output :: "env \<Rightarrow> data \<Rightarrow> string \<Rightarrow> event list \<times> (outcome + unit)" where
  "write_image_output e vc filename =
     (let t1 = [VkMapMemory (dst_mem vc) 0 (ucast (size_v vc))]
      in if vk_result e Call_vkMapMemory_dst \<noteq> VK_SUCCESS
         then (t1, Inl (Undefined Indeterminate_pointer))
         else
           let t2 = t1 @
                 [Gdk_pixbuf_new_from_data (out_dst_map e) (width vc) (height vc) (row_stride vc),
                  Gdk_pixbuf_save filename]
           in if \<not> save_ok e
              then (t2 @ [G_error (''Could not write output file: '' @ save_error_message e)],
                    Inl Aborted)
              else (t2 @ [VkUnmapMemory (dst_mem vc)], Inr ()))"

text \<open>The subresource range of both image barriers.\<close>

definition color_range :: VkImageSubresourceRange where
  "color_range =
     \<lparr>isr_aspectMask = VK_IMAGE_ASPECT_COLOR_BIT, isr_baseMipLevel = 0, isr_levelCount = 1,
      isr_baseArrayLayer = 0, isr_layerCount = 1\<rparr>"

text \<open>The commands \<^verbatim>\<open>main\<close> records between \<^verbatim>\<open>vkBeginCommandBuffer\<close> and
  \<^verbatim>\<open>vkEndCommandBuffer\<close>.\<close>

definition record_commands :: "data \<Rightarrow> handle \<Rightarrow> event list" where
  "record_commands vc cmd_buffer =
     [VkCmdPipelineBarrier cmd_buffer VK_PIPELINE_STAGE_TRANSFER_BIT VK_PIPELINE_STAGE_TRANSFER_BIT
        \<lparr>bmb_srcAccessMask = 0, bmb_dstAccessMask = VK_ACCESS_TRANSFER_READ_BIT,
         bmb_buffer = src_buffer vc, bmb_offset = 0, bmb_size = VK_WHOLE_SIZE\<rparr>
        \<lparr>imb_srcAccessMask = 0, imb_dstAccessMask = VK_ACCESS_TRANSFER_WRITE_BIT,
         oldLayout = VK_IMAGE_LAYOUT_UNDEFINED,
         newLayout = VK_IMAGE_LAYOUT_TRANSFER_DST_OPTIMAL,
         imb_image = dst_image vc, subresourceRange = color_range\<rparr>,
      VkCmdCopyBufferToImage cmd_buffer (src_buffer vc) (dst_image vc)
        VK_IMAGE_LAYOUT_TRANSFER_DST_OPTIMAL
        \<lparr>bufferOffset = 0,
         bufferRowLength = width vc,
         bufferImageHeight = height vc,
         imageSubresource =
           \<lparr>isl_aspectMask = VK_IMAGE_ASPECT_COLOR_BIT, isl_mipLevel = 0,
            isl_baseArrayLayer = 0, isl_layerCount = 1\<rparr>,
         imageOffset = (0, 0, 0),
         imageExtent = (width vc, height vc, 1)\<rparr>,
      VkCmdPipelineBarrier cmd_buffer VK_PIPELINE_STAGE_TRANSFER_BIT VK_PIPELINE_STAGE_TRANSFER_BIT
        \<lparr>bmb_srcAccessMask = 0, bmb_dstAccessMask = VK_ACCESS_TRANSFER_WRITE_BIT,
         bmb_buffer = dst_buffer vc, bmb_offset = 0, bmb_size = VK_WHOLE_SIZE\<rparr>
        \<lparr>imb_srcAccessMask = VK_ACCESS_TRANSFER_WRITE_BIT,
         imb_dstAccessMask = VK_ACCESS_TRANSFER_READ_BIT,
         oldLayout = VK_IMAGE_LAYOUT_TRANSFER_DST_OPTIMAL,
         newLayout = VK_IMAGE_LAYOUT_TRANSFER_SRC_OPTIMAL,
         imb_image = dst_image vc, subresourceRange = color_range\<rparr>,
      VkCmdCopyImageToBuffer cmd_buffer (dst_image vc) VK_IMAGE_LAYOUT_TRANSFER_SRC_OPTIMAL
        (dst_buffer vc)
        \<lparr>bufferOffset = 0,
         bufferRowLength = width vc,
         bufferImageHeight = height vc,
         imageSubresource =
           \<lparr>isl_aspectMask = VK_IMAGE_ASPECT_COLOR_BIT, isl_mipLevel = 0,
            isl_baseArrayLayer = 0, isl_layerCount = 1\<rparr>,
         imageOffset = (0, 0, 0),
         imageExtent = (width vc, height vc, 1)\<rparr>]"

text \<open>
  \<^verbatim>\<open>main\<close>, on the argument vector (\<^verbatim>\<open>argc\<close> is its length) and the environment: the
  calls of the run and how it ended.
\<close>

definition main :: "string list \<Rightarrow> env \<Rightarrow> event list \<times> outcome" where
  "main argv e =
     (let argc = int (length argv)
      in if argc < 3
         then ([G_error ''Require 2 arguments : input_file output_file''], Aborted)
         else
           (case init_vk e data0 of
             (t1, Inl stop) \<Rightarrow> (t1, stop)
           | (t1, Inr vc1) \<Rightarrow>
               (case init_image e vc1 (argv ! 1) of
                  (t2, Inl stop) \<Rightarrow> (t1 @ t2, stop)
                | (t2, Inr vc2) \<Rightarrow>
                    let vc = vc2\<lparr>cmd_pool := out_cmd_pool e\<rparr>;
                        cmd_buffer = out_cmd_buffer e;
                        t3 = [VkCreateCommandPool
                                (VK_COMMAND_POOL_CREATE_RESET_COMMAND_BUFFER_BIT OR
                                 VK_COMMAND_POOL_CREATE_PROTECTED_BIT),
                              VkAllocateCommandBuffers (cmd_pool vc),
                              VkBeginCommandBuffer cmd_buffer]
                             @ record_commands vc cmd_buffer @
                             [VkEndCommandBuffer cmd_buffer,
                              VkQueueSubmit (queue vc) cmd_buffer,
                              VkDeviceWaitIdle (device vc)]
                    in (case write_image_output e vc (argv ! 2) of
                          (t4, Inl stop) \<Rightarrow> (t1 @ t2 @ t3 @ t4, stop)
                        | (t4, Inr u) \<Rightarrow> (t1 @ t2 @ t3 @ t4, Returned 0)))))"

section \<open>Observations on a run\<close>

text \<open>
  The commands recorded into the command buffer, as far as the image is concerned: a
  pipeline barrier declares a layout transition of an image, a copy names the image and the
  layout it is in.
\<close>

datatype command =
    Layout_transition handle VkImageLayout VkImageLayout
  | Copy_buffer_to_image handle VkImageLayout
  | Copy_image_to_buffer handle VkImageLayout

fun command_of :: "event \<Rightarrow> command option" where
  "command_of (VkCmdPipelineBarrier cb s d bb ib) =
     Some (Layout_transition (imb_image ib) (oldLayout ib) (newLayout ib))"
| "command_of (VkCmdCopyBufferToImage cb b i l r) = Some (Copy_buffer_to_image i l)"
| "command_of (VkCmdCopyImageToBuffer cb i l b r) = Some (Copy_image_to_buffer i l)"
| "command_of ev = None"

definition commands :: "event list \<Rightarrow> command list" where
  "commands tr = List.map_filter command_of tr"

text \<open>The copy commands: source, destination, the layout the image is declared to be in,
  and the region.\<close>

fun copy_of :: "event \<Rightarrow> (handle \<times> handle \<times> VkImageLayout \<times> VkBufferImageCopy) option" where
  "copy_of (VkCmdCopyBufferToImage cb b i l r) = Some (b, i, l, r)"
| "copy_of (VkCmdCopyImageToBuffer cb i l b r) = Some (i, b, l, r)"
| "copy_of ev = None"

definition copies :: "event list \<Rightarrow> (handle \<times> handle \<times> VkImageLayout \<times> VkBufferImageCopy) list" where
  "copies tr = List.map_filter copy_of tr"

text \<open>The memory objects passed to \<^verbatim>\<open>vkMapMemory\<close>.\<close>

fun map_target :: "event \<Rightarrow> handle option" where
  "map_target (VkMapMemory m off sz) = Some m"
| "map_target ev = None"

definition map_targets :: "event list \<Rightarrow> handle list" where
  "map_targets tr = List.map_filter map_target tr"

fun is_submit :: "event \<Rightarrow> bool" where
  "is_submit (VkQueueSubmit q cb) = True"
| "is_submit ev = False"

fun is_wait_idle :: "event \<Rightarrow> bool" where
  "is_wait_idle (VkDeviceWaitIdle d) = True"
| "is_wait_idle ev = False"

fun is_save :: "event \<Rightarrow> bool" where
  "is_save (Gdk_pixbuf_save f) = True"
| "is_save ev = False"

fun is_vulkan_call :: "event \<Rightarrow> bool" where
  "is_vulkan_call (G_error m) = False"
| "is_vulkan_call G_assertion_failed = False"
| "is_vulkan_call G_info = False"
| "is_vulkan_call G_object_unref = False"
| "is_vulkan_call (Gdk_pixbuf_new_from_file f) = False"
| "is_vulkan_call (Gdk_pixbuf_new_from_data p w h s) = False"
| "is_vulkan_call (Gdk_pixbuf_save f) = False"
| "is_vulkan_call (Memcpy p bs n) = False"
| "is_vulkan_call ev = True"

text \<open>The events up to the submission, and the events after the device-idle wait.\<close>

definition before_submit :: "event list \<Rightarrow> event list" where
  "before_submit tr = takeWhile (\<lambda>ev. \<not> is_submit ev) tr"


definition after_wait_idle :: "event list \<Rightarrow> event list" where
  "after_wait_idle tr = drop 1 (dropWhile (\<lambda>ev. \<not> is_wait_idle ev) tr)"

text \<open>The events between \<^verbatim>\<open>vkBeginCommandBuffer\<close> and \<^verbatim>\<open>vkEndCommandBuffer\<close>.\<close>

fun is_begin :: "event \<Rightarrow> bool" where
  "is_begin (VkBeginCommandBuffer cb) = True"
| "is_begin ev = False"

fun is_end :: "event \<Rightarrow> bool" where
  "is_end (VkEndCommandBuffer cb) = True"
| "is_end ev = False"

definition recorded :: "event list \<Rightarrow> event list" where
  "recorded tr = takeWhile (\<lambda>ev. \<not> is_end ev) (drop 1 (dropWhile (\<lambda>ev. \<not> is_begin ev) tr))"

text \<open>The calls that create a resource, query its requirements, allocate memory or bind it.\<close>

fun is_resource_call :: "event \<Rightarrow> bool" where
  "is_resource_call (VkCreateBuffer ci) = True"
| "is_resource_call (VkGetBufferMemoryRequirements b) = True"
| "is_resource_call (VkCreateImage ci) = True"
| "is_resource_call (VkGetImageMemoryRequirements i) = True"
| "is_resource_call (VkAllocateMemory ai) = True"
| "is_resource_call (VkBindBufferMemory b m off) = True"
| "is_resource_call (VkBindImageMemory i m off) = True"
| "is_resource_call ev = False"

text \<open>
  An event of the set-up phases: not a recorded command, not the begin or end of the
  recording, not the submission, the idle wait or the write of the output file.
\<close>

definition calm :: "event \<Rightarrow> bool" where
  "calm ev =
     (\<not> is_submit ev \<and> \<not> is_wait_idle ev \<and> \<not> is_save ev \<and> \<not> is_begin ev \<and> \<not> is_end ev \<and>
      command_of ev = None \<and> copy_of ev = None)"

section \<open>The classifier as the specification words it\<close>

text \<open>
  Index \<open>i\<close> is eligible when bit \<open>i\<close> of the allowed mask is set and the entry's property
  flags include device-local, host-visible if requested and protected if requested.
\<close>

definition spec_eligible ::
  "VkPhysicalDeviceMemoryProperties \<Rightarrow> u32 \<Rightarrow> bool \<Rightarrow> bool \<Rightarrow> nat \<Rightarrow> bool" where
  "spec_eligible mp allowed_mask need_host_visible need_protected i =
     (bit allowed_mask i \<and>
      propertyFlags (memoryTypes mp ! i) AND VK_MEMORY_PROPERTY_DEVICE_LOCAL_BIT \<noteq> 0 \<and>
      (if need_host_visible
       then propertyFlags (memoryTypes mp ! i) AND VK_MEMORY_PROPERTY_HOST_VISIBLE_BIT \<noteq> 0
       else True) \<and>
      (if need_protected
       then propertyFlags (memoryTypes mp ! i) AND VK_MEMORY_PROPERTY_PROTECTED_BIT \<noteq> 0
       else True))"

text \<open>The first eligible index in table order, or the sentinel \<open>-1\<close>.\<close>

definition select_memory_type ::
  "VkPhysicalDeviceMemoryProperties \<Rightarrow> u32 \<Rightarrow> bool \<Rightarrow> bool \<Rightarrow> int" where
  "select_memory_type mp allowed_mask need_host_visible need_protected =
     (case find (spec_eligible mp allowed_mask need_host_visible need_protected)
             [0 ..< unat (memoryTypeCount mp)] of
        None \<Rightarrow> - 1
      | Some i \<Rightarrow> int i)"

section \<open>Concrete inputs\<close>

definition memory_type :: "u32 \<Rightarrow> VkMemoryType" where
  "memory_type fl = \<lparr>propertyFlags = fl, heapIndex = 0\<rparr>"

text \<open>A table whose only valid entry is device-local and nothing else.\<close>

definition table_device_local_only :: VkPhysicalDeviceMemoryProperties where
  "table_device_local_only =
     \<lparr>memoryTypeCount = 1,
      memoryTypes = memory_type VK_MEMORY_PROPERTY_DEVICE_LOCAL_BIT # replicate 31 (memory_type 0)\<rparr>"

text \<open>A table with a device-local host-visible type and a device-local protected type.\<close>

definition table_unified :: VkPhysicalDeviceMemoryProperties where
  "table_unified =
     \<lparr>memoryTypeCount = 2,
      memoryTypes =
        memory_type (VK_MEMORY_PROPERTY_DEVICE_LOCAL_BIT OR VK_MEMORY_PROPERTY_HOST_VISIBLE_BIT) #
        memory_type (VK_MEMORY_PROPERTY_DEVICE_LOCAL_BIT OR VK_MEMORY_PROPERTY_PROTECTED_BIT) #
        replicate 30 (memory_type 0)\<rparr>"

text \<open>The 2 x 1 image of the end-to-end scenario: a red and a green pixel.\<close>

definition pixbuf_2x1 :: GdkPixbuf where
  "pixbuf_2x1 =
     \<lparr>pb_width = 2, pb_height = 1, pb_rowstride = 8, pb_byte_length = 8,
      pb_pixels = [255, 0, 0, 255, 0, 255, 0, 255]\<rparr>"

text \<open>An environment in which every call succeeds, and one in which the submission fails.\<close>

definition env_ok :: env where
  "env_ok =
     \<lparr>vk_result = (\<lambda>c. VK_SUCCESS),
      out_instance = 1,
      out_physical_device_count = 1,
      out_physical_device0 = 2,
      out_protectedMemory = 1,
      out_memory_properties = table_unified,
      out_queue_family_count = 1,
      out_queue_family0_flags = VK_QUEUE_GRAPHICS_BIT,
      out_device = 3,
      out_queue = 4,
      pixbuf_of_file = (\<lambda>f. if f = ''input.png'' then Inr pixbuf_2x1 else Inl ''Failed to open file''),
      out_src_buffer = 5,
      out_src_requirements = \<lparr>mr_size = 8, mr_memoryTypeBits = 1\<rparr>,
      out_src_mem = 6,
      out_src_map = 4096,
      out_dst_image = 7,
      out_image_requirements = \<lparr>mr_size = 4096, mr_memoryTypeBits = 2\<rparr>,
      out_dst_image_mem = 8,
      out_dst_buffer = 9,
      out_dst_requirements = \<lparr>mr_size = 8, mr_memoryTypeBits = 1\<rparr>,
      out_dst_mem = 10,
      out_cmd_pool = 11,
      out_cmd_buffer = 12,
      out_dst_map = 8192,
      save_ok = True,
      save_error_message = []\<rparr>"

definition env_submit_lost :: env where
  "env_submit_lost =
     env_ok\<lparr>vk_result :=
       (\<lambda>c. if c = Call_vkQueueSubmit then VK_ERROR_DEVICE_LOST else VK_SUCCESS)\<rparr>"

definition argv_ok :: "string list" where
  "argv_ok = [''blit-protected'', ''input.png'', ''output.png'']"

definition argv_short :: "string list" where
  "argv_short = [''blit-protected'', ''input.png'']"

section \<open>Properties of the memory classifier\<close>

lemmas flag_defs =
  VK_MEMORY_PROPERTY_DEVICE_LOCAL_BIT_def VK_MEMORY_PROPERTY_HOST_VISIBLE_BIT_def
  VK_MEMORY_PROPERTY_PROTECTED_BIT_def

lemmas classifier_defs =
  find_image_memory_def find_image_memory_reads_def find_image_memory_scan_def required_flags_def


text \<open>
  Every entry the scan reads lies inside the array and at an index whose bit is set in the
  allowed mask, but the bound that the loop condition gives is \<open>\<le>\<close>, not \<open><\<close>.
\<close>

lemma loop_reads_bound:
  "find_image_memory_loop mp allowed flags i = (rd, r) \<Longrightarrow> k \<in> set rd \<Longrightarrow>
     k \<le> unat (memoryTypeCount mp) \<and> k < length (memoryTypes mp) \<and> bit allowed k"
proof (induction mp allowed flags i arbitrary: rd r rule: find_image_memory_loop.induct)
  case (1 mp allowed flags i)
  from "1.prems" "1.IH" show ?case
    by (subst (asm) find_image_memory_loop.simps)
       (auto split: if_splits prod.splits simp: and_exp_eq_0_iff_not_bit word_le_nat_alt)
qed

text \<open>
  C2. The claim: \<^verbatim>\<open>find_image_memory\<close> returns the lowest index whose bit is set in the
  allowed mask and whose flags include device-local, host-visible if requested and protected
  if requested, and \<open>-1\<close> exactly when there is none. The code tests
  \<^verbatim>\<open>propertyFlags & flags\<close> for being non-zero, so one flag of the mask is enough: for a table
  whose entry 0 is device-local only, allowed mask 1 and a host-visible request, it returns 0,
  where the classifier of the specification finds no eligible entry.
\<close>

theorem find_image_memory_any_flag_suffices:
  "find_image_memory (data0\<lparr>memory_properties := table_device_local_only\<rparr>) 1 True False = Inr 0 \<and>
   select_memory_type table_device_local_only 1 True False = - 1"
  by (simp add: classifier_defs flag_defs table_device_local_only_def memory_type_def data0_def
      find_image_memory_loop.simps select_memory_type_def spec_eligible_def upt_rec)

text \<open>
  C9. The claim: every read of the table is at an index strictly below
  \<^verbatim>\<open>memoryTypeCount\<close>. The loop runs while \<^verbatim>\<open>i <= memoryTypeCount\<close>: with one valid entry
  and allowed mask 2, the scan reads entry 1.
\<close>

theorem find_image_memory_reads_entry_at_count:
  "find_image_memory_reads (data0\<lparr>memory_properties := table_device_local_only\<rparr>) 2 True False = [1] \<and>
   memoryTypeCount table_device_local_only = 1"
  by (simp add: classifier_defs flag_defs table_device_local_only_def memory_type_def data0_def
      find_image_memory_loop.simps)



section \<open>Properties of a run\<close>

lemma commands_simps:
  "commands [] = []"
  "commands (ev # t) = (case command_of ev of None \<Rightarrow> commands t | Some c \<Rightarrow> c # commands t)"
  by (simp_all add: commands_def split: option.split)

lemma copies_simps:
  "copies [] = []"
  "copies (ev # t) = (case copy_of ev of None \<Rightarrow> copies t | Some c \<Rightarrow> c # copies t)"
  by (simp_all add: copies_def split: option.split)

lemma map_targets_simps:
  "map_targets [] = []"
  "map_targets (ev # t) = (case map_target ev of None \<Rightarrow> map_targets t | Some m \<Rightarrow> m # map_targets t)"
  by (simp_all add: map_targets_def split: option.split)

lemma calm_observers:
  "list_all calm t \<Longrightarrow>
     filter is_submit t = [] \<and> filter is_wait_idle t = [] \<and> filter is_save t = [] \<and>
     commands t = [] \<and> copies t = []"
  by (induction t) (auto simp: calm_def commands_simps copies_simps)

lemma calm_takeWhile_submit:
  "list_all calm xs \<Longrightarrow>
     takeWhile (\<lambda>ev. \<not> is_submit ev) (xs @ ys) = xs @ takeWhile (\<lambda>ev. \<not> is_submit ev) ys"
  by (induction xs) (auto simp: calm_def)


lemma calm_dropWhile_wait_idle:
  "list_all calm xs \<Longrightarrow>
     dropWhile (\<lambda>ev. \<not> is_wait_idle ev) (xs @ ys) = dropWhile (\<lambda>ev. \<not> is_wait_idle ev) ys"
  by (induction xs) (auto simp: calm_def)

lemma calm_dropWhile_begin:
  "list_all calm xs \<Longrightarrow>
     dropWhile (\<lambda>ev. \<not> is_begin ev) (xs @ ys) = dropWhile (\<lambda>ev. \<not> is_begin ev) ys"
  by (induction xs) (auto simp: calm_def)

lemma calm_no_begin: "list_all calm t \<Longrightarrow> VkBeginCommandBuffer cb \<notin> set t"
  by (induction t) (auto simp: calm_def)

lemma calm_takeWhile_all:
  "list_all calm t \<Longrightarrow>
     takeWhile (\<lambda>ev. \<not> is_submit ev) t = t \<and> takeWhile (\<lambda>ev. \<not> is_wait_idle ev) t = t \<and>
     dropWhile (\<lambda>ev. \<not> is_wait_idle ev) t = [] \<and> dropWhile (\<lambda>ev. \<not> is_begin ev) t = []"
  by (induction t) (auto simp: calm_def)

lemma map_targets_append: "map_targets (xs @ ys) = map_targets xs @ map_targets ys"
  by (simp add: map_targets_def List.map_filter_def)

lemma commands_append: "commands (xs @ ys) = commands xs @ commands ys"
  by (simp add: commands_def List.map_filter_def)

lemma copies_append: "copies (xs @ ys) = copies xs @ copies ys"
  by (simp add: copies_def List.map_filter_def)

lemma init_vk_trace:
  "init_vk e vc = (t, r) \<Longrightarrow> list_all calm t \<and> map_targets t = [] \<and> filter is_resource_call t = []"
  by (auto simp: init_vk_def Let_def calm_def map_targets_simps split: if_splits)


lemma init_image_trace:
  "init_image e vc f = (t, r) \<Longrightarrow>
     list_all calm t \<and> (map_targets t = [] \<or> map_targets t = [out_src_mem e])"
  by (auto simp: init_image_def Let_def calm_def map_targets_simps
      split: if_splits sum.splits)

lemma init_image_data:
  "init_image e vc f = (t, Inr vc') \<Longrightarrow>
     (\<exists>pb. pixbuf_of_file e f = Inr pb \<and>
        width vc' = word_of_int (pb_width pb) \<and> height vc' = word_of_int (pb_height pb)) \<and>
     src_buffer vc' = out_src_buffer e \<and> dst_image vc' = out_dst_image e \<and>
     dst_buffer vc' = out_dst_buffer e \<and> dst_mem vc' = out_dst_mem e \<and>
     queue vc' = queue vc \<and> device vc' = device vc"
  by (auto simp: init_image_def Let_def split: if_splits sum.splits)

lemma main_cases [case_names usage vk image full]:
  obtains
    "length argv < 3"
      "main argv e = ([G_error ''Require 2 arguments : input_file output_file''], Aborted)"
  | t1 stop where
      "init_vk e data0 = (t1, Inl stop)" "main argv e = (t1, stop)"
  | t1 vc1 t2 stop where
      "init_vk e data0 = (t1, Inr vc1)" "init_image e vc1 (argv ! 1) = (t2, Inl stop)"
      "main argv e = (t1 @ t2, stop)"
  | t1 vc1 t2 vc2 where
      "init_vk e data0 = (t1, Inr vc1)" "init_image e vc1 (argv ! 1) = (t2, Inr vc2)"
      "fst (main argv e) =
         t1 @ t2 @
         [VkCreateCommandPool
            (VK_COMMAND_POOL_CREATE_RESET_COMMAND_BUFFER_BIT OR VK_COMMAND_POOL_CREATE_PROTECTED_BIT),
          VkAllocateCommandBuffers (out_cmd_pool e),
          VkBeginCommandBuffer (out_cmd_buffer e)] @
         record_commands (vc2\<lparr>cmd_pool := out_cmd_pool e\<rparr>) (out_cmd_buffer e) @
         [VkEndCommandBuffer (out_cmd_buffer e),
          VkQueueSubmit (queue vc2) (out_cmd_buffer e),
          VkDeviceWaitIdle (device vc2)] @
         fst (write_image_output e (vc2\<lparr>cmd_pool := out_cmd_pool e\<rparr>) (argv ! 2))"
proof (cases "length argv < 3")
  case True
  then show ?thesis using that(1) by (simp add: main_def)
next
  case short: False
  obtain t1 r1 where iv: "init_vk e data0 = (t1, r1)" by fastforce
  show ?thesis
  proof (cases r1)
    case (Inl stop)
    with iv short show ?thesis using that(2) by (simp add: main_def)
  next
    case (Inr vc1)
    obtain t2 r2 where ii: "init_image e vc1 (argv ! 1) = (t2, r2)" by fastforce
    show ?thesis
    proof (cases r2)
      case (Inl stop)
      with iv ii Inr short show ?thesis using that(3) by (simp add: main_def)
    next
      case vc2: (Inr vc2)
      with iv ii Inr short show ?thesis using that(4) [of t1 vc1 t2 vc2]
        by (simp add: main_def Let_def split: prod.splits sum.splits)
    qed
  qed
qed

lemma write_image_output_trace:
  "list_all (\<lambda>ev. \<not> is_submit ev \<and> \<not> is_wait_idle ev \<and> command_of ev = None \<and> copy_of ev = None)
     (fst (write_image_output e vc f)) \<and>
   map_targets (fst (write_image_output e vc f)) = [dst_mem vc] \<and>
   (filter is_save (fst (write_image_output e vc f)) = [] \<or>
    filter is_save (fst (write_image_output e vc f)) = [Gdk_pixbuf_save f])"
  by (simp add: write_image_output_def Let_def map_targets_simps)

lemma quiet_observers:
  "list_all (\<lambda>ev. \<not> is_submit ev \<and> \<not> is_wait_idle ev \<and> command_of ev = None \<and> copy_of ev = None) t \<Longrightarrow>
     filter is_submit t = [] \<and> filter is_wait_idle t = [] \<and> commands t = [] \<and> copies t = []"
  by (induction t) (auto simp: commands_simps copies_simps)

lemma calm_map_targets:
  "list_all calm t \<Longrightarrow>
     map_targets (before_submit t) = map_targets t \<and> map_targets (after_wait_idle t) = []"
  by (simp add: calm_takeWhile_all before_submit_def after_wait_idle_def map_targets_simps)


lemmas program_defs =
  main_def init_vk_def init_image_def write_image_output_def record_commands_def Let_def

lemmas example_defs =
  env_ok_def env_submit_lost_def argv_ok_def argv_short_def table_unified_def
  table_device_local_only_def memory_type_def pixbuf_2x1_def data0_def
  VK_SUCCESS_def VK_ERROR_DEVICE_LOST_def VK_QUEUE_GRAPHICS_BIT_def

lemma run_ok_begin: "VkBeginCommandBuffer 12 \<in> set (fst (main argv_ok env_ok))"
  by (simp add: program_defs example_defs classifier_defs flag_defs find_image_memory_loop.simps)


lemma init_image_ok:
  "\<exists>tr vc'. init_image env_ok (data0\<lparr>memory_properties := table_unified\<rparr>) ''input.png'' = (tr, Inr vc')"
  by (simp add: program_defs example_defs classifier_defs flag_defs find_image_memory_loop.simps)

text \<open>
  C3. In every run that starts recording, the command buffer receives exactly four commands,
  in this order: a pipeline barrier that takes the protected image from the undefined layout
  to transfer-destination-optimal, the buffer-to-image copy (image in
  transfer-destination-optimal), a pipeline barrier that takes the image from
  transfer-destination-optimal to transfer-source-optimal, and the image-to-buffer copy (image
  in transfer-source-optimal). No command is recorded outside the recording, so each of the
  two transitions occurs exactly once and these two layouts are the only ones the image reaches.
\<close>

theorem recorded_command_sequence:
  assumes "VkBeginCommandBuffer cb \<in> set (fst (main argv e))"
  shows "commands (fst (main argv e)) =
           [Layout_transition (out_dst_image e) VK_IMAGE_LAYOUT_UNDEFINED VK_IMAGE_LAYOUT_TRANSFER_DST_OPTIMAL,
            Copy_buffer_to_image (out_dst_image e) VK_IMAGE_LAYOUT_TRANSFER_DST_OPTIMAL,
            Layout_transition (out_dst_image e) VK_IMAGE_LAYOUT_TRANSFER_DST_OPTIMAL VK_IMAGE_LAYOUT_TRANSFER_SRC_OPTIMAL,
            Copy_image_to_buffer (out_dst_image e) VK_IMAGE_LAYOUT_TRANSFER_SRC_OPTIMAL] \<and>
         commands (recorded (fst (main argv e))) = commands (fst (main argv e)) \<and>
         length (recorded (fst (main argv e))) = 4"
proof (cases argv e rule: main_cases)
  case usage
  with assms show ?thesis by simp
next
  case (vk t1 stop)
  with assms init_vk_trace [OF vk(1)] show ?thesis by (simp add: calm_no_begin)
next
  case (image t1 vc1 t2 stop)
  with assms init_vk_trace [OF image(1)] init_image_trace [OF image(2)] show ?thesis
    by (auto simp: calm_no_begin)
next
  case (full t1 vc1 t2 vc2)
  have c1: "list_all calm t1" and c2: "list_all calm t2"
    using init_vk_trace [OF full(1)] init_image_trace [OF full(2)] by simp_all
  have img: "dst_image vc2 = out_dst_image e"
    using init_image_data [OF full(2)] by simp
  have w: "commands (fst (write_image_output e (vc2\<lparr>cmd_pool := out_cmd_pool e\<rparr>) (argv ! 2))) = []"
    using write_image_output_trace quiet_observers by blast
  show ?thesis
    using calm_observers [OF c1] calm_observers [OF c2] w img
    by (simp add: full(3) recorded_def calm_dropWhile_begin c1 c2 commands_append
        record_commands_def commands_simps)
qed

theorem recorded_command_sequence_witness:
  "VkBeginCommandBuffer 12 \<in> set (fst (main argv_ok env_ok)) \<and>
   commands (fst (main argv_ok env_ok)) =
     [Layout_transition 7 VK_IMAGE_LAYOUT_UNDEFINED VK_IMAGE_LAYOUT_TRANSFER_DST_OPTIMAL,
      Copy_buffer_to_image 7 VK_IMAGE_LAYOUT_TRANSFER_DST_OPTIMAL,
      Layout_transition 7 VK_IMAGE_LAYOUT_TRANSFER_DST_OPTIMAL VK_IMAGE_LAYOUT_TRANSFER_SRC_OPTIMAL,
      Copy_image_to_buffer 7 VK_IMAGE_LAYOUT_TRANSFER_SRC_OPTIMAL] \<and>
   length (recorded (fst (main argv_ok env_ok))) = 4"
  using recorded_command_sequence [OF run_ok_begin] run_ok_begin by (simp add: env_ok_def)

text \<open>
  C4. In every run, the memory objects passed to \<^verbatim>\<open>vkMapMemory\<close> are: before the
  submission, at most the memory of the source buffer; after the device-idle wait, at most the
  memory of the destination buffer; and nothing else at any time. The memory of the protected
  image, a different object, is never mapped.
\<close>

theorem only_buffer_memory_mapped:
  "(map_targets (before_submit (fst (main argv e))) = [] \<or>
    map_targets (before_submit (fst (main argv e))) = [out_src_mem e]) \<and>
   (map_targets (after_wait_idle (fst (main argv e))) = [] \<or>
    map_targets (after_wait_idle (fst (main argv e))) = [out_dst_mem e]) \<and>
   map_targets (fst (main argv e)) =
     map_targets (before_submit (fst (main argv e))) @ map_targets (after_wait_idle (fst (main argv e))) \<and>
   (out_dst_image_mem e \<noteq> out_src_mem e \<and> out_dst_image_mem e \<noteq> out_dst_mem e \<longrightarrow>
      out_dst_image_mem e \<notin> set (map_targets (fst (main argv e))))"
proof (cases argv e rule: main_cases)
  case usage
  then show ?thesis
    by (simp add: before_submit_def after_wait_idle_def map_targets_simps)
next
  case (vk t1 stop)
  with init_vk_trace [OF vk(1)] calm_map_targets [of t1] show ?thesis
    by simp
next
  case (image t1 vc1 t2 stop)
  have c: "list_all calm (t1 @ t2)"
    using init_vk_trace [OF image(1)] init_image_trace [OF image(2)] by simp
  show ?thesis
    using init_vk_trace [OF image(1)] init_image_trace [OF image(2)] calm_map_targets [OF c]
    by (auto simp: image(3) map_targets_append)
next
  case (full t1 vc1 t2 vc2)
  have c1: "list_all calm t1" and c2: "list_all calm t2" and m1: "map_targets t1 = []"
    and m2: "map_targets t2 = [] \<or> map_targets t2 = [out_src_mem e]"
    using init_vk_trace [OF full(1)] init_image_trace [OF full(2)] by simp_all
  have dm: "dst_mem vc2 = out_dst_mem e"
    using init_image_data [OF full(2)] by simp
  have w: "map_targets (fst (write_image_output e (vc2\<lparr>cmd_pool := out_cmd_pool e\<rparr>) (argv ! 2))) =
             [out_dst_mem e]"
    using write_image_output_trace [of e "vc2\<lparr>cmd_pool := out_cmd_pool e\<rparr>" "argv ! 2"] dm by simp
  show ?thesis
    using m1 m2 w
    by (auto simp: full(3) before_submit_def after_wait_idle_def map_targets_append
        calm_takeWhile_submit calm_dropWhile_wait_idle c1 c2 record_commands_def map_targets_simps)
qed

theorem only_buffer_memory_mapped_witness:
  "out_dst_image_mem env_ok \<noteq> out_src_mem env_ok \<and> out_dst_image_mem env_ok \<noteq> out_dst_mem env_ok \<and>
   out_dst_image_mem env_ok \<notin> set (map_targets (fst (main argv_ok env_ok)))"
proof -
  have "out_dst_image_mem env_ok \<noteq> out_src_mem env_ok \<and> out_dst_image_mem env_ok \<noteq> out_dst_mem env_ok"
    by (simp add: env_ok_def)
  with only_buffer_memory_mapped [of argv_ok env_ok] show ?thesis by blast
qed

text \<open>
  C5. With fewer than two positional arguments (an argument vector of fewer than three
  entries) the run consists of the usage message given to \<^verbatim>\<open>g_error\<close>, which logs it to
  standard error and aborts the process; no Vulkan call is made.
\<close>

theorem usage_error_before_initialization:
  "length argv < 3 \<Longrightarrow>
     main argv e = ([G_error ''Require 2 arguments : input_file output_file''], Aborted) \<and>
     filter is_vulkan_call (fst (main argv e)) = []"
  by (simp add: main_def)

theorem usage_error_before_initialization_witness:
  "length argv_short < 3 \<and>
   main argv_short env_ok = ([G_error ''Require 2 arguments : input_file output_file''], Aborted)"
  using usage_error_before_initialization [of argv_short env_ok] by (simp add: argv_short_def)

text \<open>
  C6. In every run that starts recording, the copy commands are the buffer-to-image copy from
  the source buffer into the protected image and the image-to-buffer copy from the image into
  the destination buffer, both with the same region: buffer offset 0, buffer row length and
  buffer image height equal to the width and height of the decoded input, image offset
  \<open>(0, 0, 0)\<close> and extent width x height x 1.
\<close>

theorem copy_regions_cover_full_extent:
  assumes "VkBeginCommandBuffer cb \<in> set (fst (main argv e))"
  shows "\<exists>pb. pixbuf_of_file e (argv ! 1) = Inr pb \<and>
           copies (fst (main argv e)) =
             [(out_src_buffer e, out_dst_image e, VK_IMAGE_LAYOUT_TRANSFER_DST_OPTIMAL,
               \<lparr>bufferOffset = 0,
                bufferRowLength = word_of_int (pb_width pb),
                bufferImageHeight = word_of_int (pb_height pb),
                imageSubresource =
                  \<lparr>isl_aspectMask = VK_IMAGE_ASPECT_COLOR_BIT, isl_mipLevel = 0,
                   isl_baseArrayLayer = 0, isl_layerCount = 1\<rparr>,
                imageOffset = (0, 0, 0),
                imageExtent = (word_of_int (pb_width pb), word_of_int (pb_height pb), 1)\<rparr>),
              (out_dst_image e, out_dst_buffer e, VK_IMAGE_LAYOUT_TRANSFER_SRC_OPTIMAL,
               \<lparr>bufferOffset = 0,
                bufferRowLength = word_of_int (pb_width pb),
                bufferImageHeight = word_of_int (pb_height pb),
                imageSubresource =
                  \<lparr>isl_aspectMask = VK_IMAGE_ASPECT_COLOR_BIT, isl_mipLevel = 0,
                   isl_baseArrayLayer = 0, isl_layerCount = 1\<rparr>,
                imageOffset = (0, 0, 0),
                imageExtent = (word_of_int (pb_width pb), word_of_int (pb_height pb), 1)\<rparr>)]"
proof (cases argv e rule: main_cases)
  case usage
  with assms show ?thesis by simp
next
  case (vk t1 stop)
  with assms init_vk_trace [OF vk(1)] show ?thesis by (simp add: calm_no_begin)
next
  case (image t1 vc1 t2 stop)
  with assms init_vk_trace [OF image(1)] init_image_trace [OF image(2)] show ?thesis
    by (auto simp: calm_no_begin)
next
  case (full t1 vc1 t2 vc2)
  have c1: "list_all calm t1" and c2: "list_all calm t2"
    using init_vk_trace [OF full(1)] init_image_trace [OF full(2)] by simp_all
  obtain pb where pb: "pixbuf_of_file e (argv ! 1) = Inr pb"
      "width vc2 = word_of_int (pb_width pb)" "height vc2 = word_of_int (pb_height pb)"
    using init_image_data [OF full(2)] by blast
  have d: "src_buffer vc2 = out_src_buffer e" "dst_image vc2 = out_dst_image e"
      "dst_buffer vc2 = out_dst_buffer e"
    using init_image_data [OF full(2)] by simp_all
  have w: "copies (fst (write_image_output e (vc2\<lparr>cmd_pool := out_cmd_pool e\<rparr>) (argv ! 2))) = []"
    using write_image_output_trace quiet_observers by blast
  have "copies (fst (main argv e)) =
          copies (record_commands (vc2\<lparr>cmd_pool := out_cmd_pool e\<rparr>) (out_cmd_buffer e))"
    using calm_observers [OF c1] calm_observers [OF c2] w
    by (simp add: full(3) copies_append copies_simps)
  with pb d show ?thesis
    by (simp add: record_commands_def copies_simps)
qed

theorem copy_regions_cover_full_extent_witness:
  "VkBeginCommandBuffer 12 \<in> set (fst (main argv_ok env_ok)) \<and>
   map (\<lambda>(s, d, l, r). (bufferRowLength r, bufferImageHeight r, imageOffset r, imageExtent r))
     (copies (fst (main argv_ok env_ok))) =
     [(2, 1, (0, 0, 0), (2, 1, 1)), (2, 1, (0, 0, 0), (2, 1, 1))]"
proof -
  obtain pb where pb: "pixbuf_of_file env_ok (argv_ok ! 1) = Inr pb"
    and c: "copies (fst (main argv_ok env_ok)) =
             [(out_src_buffer env_ok, out_dst_image env_ok, VK_IMAGE_LAYOUT_TRANSFER_DST_OPTIMAL,
               \<lparr>bufferOffset = 0,
                bufferRowLength = word_of_int (pb_width pb),
                bufferImageHeight = word_of_int (pb_height pb),
                imageSubresource =
                  \<lparr>isl_aspectMask = VK_IMAGE_ASPECT_COLOR_BIT, isl_mipLevel = 0,
                   isl_baseArrayLayer = 0, isl_layerCount = 1\<rparr>,
                imageOffset = (0, 0, 0),
                imageExtent = (word_of_int (pb_width pb), word_of_int (pb_height pb), 1)\<rparr>),
              (out_dst_image env_ok, out_dst_buffer env_ok, VK_IMAGE_LAYOUT_TRANSFER_SRC_OPTIMAL,
               \<lparr>bufferOffset = 0,
                bufferRowLength = word_of_int (pb_width pb),
                bufferImageHeight = word_of_int (pb_height pb),
                imageSubresource =
                  \<lparr>isl_aspectMask = VK_IMAGE_ASPECT_COLOR_BIT, isl_mipLevel = 0,
                   isl_baseArrayLayer = 0, isl_layerCount = 1\<rparr>,
                imageOffset = (0, 0, 0),
                imageExtent = (word_of_int (pb_width pb), word_of_int (pb_height pb), 1)\<rparr>)]"
    using copy_regions_cover_full_extent [OF run_ok_begin] by blast
  from pb have "pb = pixbuf_2x1"
    by (simp add: env_ok_def argv_ok_def)
  with c run_ok_begin show ?thesis
    by (simp add: pixbuf_2x1_def)
qed

text \<open>
  C7. When \<^verbatim>\<open>init_image\<close> completes, its resource calls are, in this order: for the source
  buffer (exclusive sharing, transfer-source usage) create, query the memory requirements,
  allocate the required size with the memory type \<^verbatim>\<open>find_image_memory\<close> selects for a
  host-visible unprotected request, bind at offset 0; the same for the protected image (2-D,
  optimal tiling, transfer-source and transfer-destination usage, protected-create flag,
  request not host-visible and protected); the same for the destination buffer (exclusive
  sharing, transfer-destination usage, host-visible unprotected request).
\<close>

theorem init_image_resource_construction:
  assumes "init_image e vc filename = (tr, Inr vc')"
  shows "\<exists>pb i1 i2 i3.
           pixbuf_of_file e filename = Inr pb \<and>
           find_image_memory vc (mr_memoryTypeBits (out_src_requirements e)) True False = Inr i1 \<and>
           find_image_memory vc (mr_memoryTypeBits (out_image_requirements e)) False True = Inr i2 \<and>
           find_image_memory vc (mr_memoryTypeBits (out_dst_requirements e)) True False = Inr i3 \<and>
           filter is_resource_call tr =
             [VkCreateBuffer
                \<lparr>bci_flags = 0, bci_size = ucast (ucast (pb_byte_length pb) :: u32),
                 bci_usage = VK_BUFFER_USAGE_TRANSFER_SRC_BIT,
                 bci_sharingMode = VK_SHARING_MODE_EXCLUSIVE\<rparr>,
              VkGetBufferMemoryRequirements (out_src_buffer e),
              VkAllocateMemory
                \<lparr>allocationSize = mr_size (out_src_requirements e), memoryTypeIndex = word_of_int i1\<rparr>,
              VkBindBufferMemory (out_src_buffer e) (out_src_mem e) 0,
              VkCreateImage
                \<lparr>ici_imageType = VK_IMAGE_TYPE_2D,
                 ici_format = VK_FORMAT_R8G8B8A8_UNORM,
                 ici_extent = (word_of_int (pb_width pb), word_of_int (pb_height pb), 1),
                 ici_mipLevels = 1, ici_arrayLayers = 1, ici_samples = 1,
                 ici_tiling = VK_IMAGE_TILING_OPTIMAL,
                 ici_usage = VK_IMAGE_USAGE_TRANSFER_SRC_BIT OR VK_IMAGE_USAGE_TRANSFER_DST_BIT,
                 ici_flags = VK_IMAGE_CREATE_PROTECTED_BIT\<rparr>,
              VkGetImageMemoryRequirements (out_dst_image e),
              VkAllocateMemory
                \<lparr>allocationSize = mr_size (out_image_requirements e), memoryTypeIndex = word_of_int i2\<rparr>,
              VkBindImageMemory (out_dst_image e) (out_dst_image_mem e) 0,
              VkCreateBuffer
                \<lparr>bci_flags = 0, bci_size = ucast (ucast (pb_byte_length pb) :: u32),
                 bci_usage = VK_BUFFER_USAGE_TRANSFER_DST_BIT,
                 bci_sharingMode = VK_SHARING_MODE_EXCLUSIVE\<rparr>,
              VkGetBufferMemoryRequirements (out_dst_buffer e),
              VkAllocateMemory
                \<lparr>allocationSize = mr_size (out_dst_requirements e), memoryTypeIndex = word_of_int i3\<rparr>,
              VkBindBufferMemory (out_dst_buffer e) (out_dst_mem e) 0]"
  using assms
  by (auto simp: init_image_def Let_def find_image_memory_def find_image_memory_scan_def
      split: if_splits sum.splits)

theorem init_image_resource_construction_witness:
  "\<exists>tr vc'. init_image env_ok (data0\<lparr>memory_properties := table_unified\<rparr>) ''input.png'' = (tr, Inr vc') \<and>
     length (filter is_resource_call tr) = 12"
proof -
  obtain tr vc' where
    h: "init_image env_ok (data0\<lparr>memory_properties := table_unified\<rparr>) ''input.png'' = (tr, Inr vc')"
    using init_image_ok by blast
  from init_image_resource_construction [OF h] have "length (filter is_resource_call tr) = 12"
    by auto
  with h show ?thesis by blast
qed




end
